theory Spec2Isabelle
  imports Main "HOL-Library.Word"
begin

section \<open>Outcomes of a call\<close>

text \<open>
  A Go call either returns or panics (\<open>panic(phasePanicMsg)\<close>, an index or slice bound out
  of range, a call through a nil function value).  \<open>OutOfFuel\<close> is used only by the
  recursive binder further down, whose recursion is bounded by an explicit counter.
\<close>

datatype 'a outcome = Returns 'a | Panics | OutOfFuel

definition obind :: "'a outcome \<Rightarrow> ('a \<Rightarrow> 'b outcome) \<Rightarrow> 'b outcome" where
  "obind x f = (case x of Returns y \<Rightarrow> f y | Panics \<Rightarrow> Panics | OutOfFuel \<Rightarrow> OutOfFuel)"

section \<open>Go types of destinations (reflect.Type, reflect.Kind)\<close>

text \<open>
  The kinds the binder distinguishes.  Destinations whose type mentions an interface, a
  floating-point or complex number, a channel or a function are outside this model.
\<close>

datatype kind =
    KBool
  | KInt | KInt8 | KInt16 | KInt32 | KInt64
  | KUint | KUint8 | KUint16 | KUint32 | KUint64 | KUintptr
  | KString
  | KArray | KMap | KPtr | KSlice | KStruct

text \<open>
  A struct type lists its fields as (name, exported, type).  \<open>int\<close>, \<open>uint\<close> and
  \<open>uintptr\<close> are 64 bits wide.
\<close>

datatype gotype =
    TBool
  | TSigned kind
  | TUnsigned kind
  | TString
  | TSlice gotype
  | TArray nat gotype
  | TPtr gotype
  | TMap gotype gotype
  | TStruct string "(string \<times> bool \<times> gotype) list"

fun Kind :: "gotype \<Rightarrow> kind" where
  "Kind TBool = KBool"
| "Kind (TSigned k) = k"
| "Kind (TUnsigned k) = k"
| "Kind TString = KString"
| "Kind (TSlice _) = KSlice"
| "Kind (TArray _ _) = KArray"
| "Kind (TPtr _) = KPtr"
| "Kind (TMap _ _) = KMap"
| "Kind (TStruct _ _) = KStruct"

text \<open>\<open>Type.Bits()\<close> of the integer kinds.\<close>

definition Bits :: "kind \<Rightarrow> nat" where
  "Bits k =
     (if k = KInt8 \<or> k = KUint8 then 8
      else if k = KInt16 \<or> k = KUint16 then 16
      else if k = KInt32 \<or> k = KUint32 then 32
      else 64)"

text \<open>
  Values of these types.  A slice is its backing array up to the capacity together with
  its length; a pointer is nil or holds its pointee; a map is nil or an association list
  from string keys.  Two values never share memory in this model.
\<close>

datatype goval =
    VBool bool
  | VInt int
  | VUint nat
  | VString string
  | VSlice "goval list" nat
  | VArray "goval list"
  | VPtr "goval option"
  | VMap "(string \<times> goval) list option"
  | VStruct "goval list"

text \<open>\<open>reflect.Zero\<close>.\<close>

fun Zero :: "gotype \<Rightarrow> goval" where
  "Zero TBool = VBool False"
| "Zero (TSigned k) = VInt 0"
| "Zero (TUnsigned k) = VUint 0"
| "Zero TString = VString []"
| "Zero (TSlice t) = VSlice [] 0"
| "Zero (TArray n t) = VArray (replicate n (Zero t))"
| "Zero (TPtr t) = VPtr None"
| "Zero (TMap k t) = VMap None"
| "Zero (TStruct n fs) = VStruct (map (\<lambda>f. Zero (snd (snd f))) fs)"

section \<open>Errors\<close>

text \<open>
  \<open>SyntaxError\<close> carries its message and the byte offset.  The message of
  \<open>scanner.error\<close> is \<open>"invalid character " + quoteChar(c) + " " + context\<close>; it is kept
  here as the pair of the character and the context.
\<close>

datatype syntax_msg =
    InvalidCharacter char string
  | UnexpectedEnd
  | NotAtBeginningOfValue

datatype numerr = ErrSyntax | ErrRange

datatype error =
    SyntaxError syntax_msg "64 word"
  | NumError numerr string
  | InvalidUnmarshalError "gotype option"
  | UnmarshalTypeError string gotype "64 word" string string
  | CorruptInputError
  | UnknownField string
  | CannotSetEmbeddedPointer gotype
  | InvalidStringTag string gotype
  | EOF
  | ErrUnexpectedEOF
  | ReadError string

section \<open>strconv.ParseUint and strconv.ParseInt, base 10\<close>

definition between :: "char \<Rightarrow> char \<Rightarrow> char \<Rightarrow> bool" where
  "between lo hi c = ((of_char lo :: nat) \<le> of_char c \<and> (of_char c :: nat) \<le> of_char hi)"

definition digitVal :: "char \<Rightarrow> nat option" where
  "digitVal c = (if between CHR ''0'' CHR ''9'' c then Some (of_char c - 48) else None)"

fun parseUintLoop :: "nat \<Rightarrow> nat \<Rightarrow> string \<Rightarrow> numerr + nat" where
  "parseUintLoop maxVal n [] = Inr n"
| "parseUintLoop maxVal n (c # cs) =
     (case digitVal c of
        None \<Rightarrow> Inl ErrSyntax
      | Some d \<Rightarrow> if n * 10 + d > maxVal then Inl ErrRange else parseUintLoop maxVal (n * 10 + d) cs)"

definition ParseUint :: "string \<Rightarrow> nat \<Rightarrow> numerr + nat" where
  "ParseUint s bitSize = (if s = [] then Inl ErrSyntax else parseUintLoop (2 ^ bitSize - 1) 0 s)"

definition ParseInt :: "string \<Rightarrow> nat \<Rightarrow> numerr + int" where
  "ParseInt s0 bitSize =
     (if s0 = [] then Inl ErrSyntax
      else
        let neg = (hd s0 = CHR ''-'');
            s = (if hd s0 = CHR ''+'' \<or> hd s0 = CHR ''-'' then tl s0 else s0);
            cutoff = (2 :: nat) ^ (bitSize - 1)
        in case ParseUint s bitSize of
             Inl ErrSyntax \<Rightarrow> Inl ErrSyntax
           | Inl ErrRange \<Rightarrow> Inl ErrRange
           | Inr un \<Rightarrow>
               if \<not> neg \<and> un \<ge> cutoff then Inl ErrRange
               else if neg \<and> un > cutoff then Inl ErrRange
               else Inr (if neg then - int un else int un))"

section \<open>The scanner\<close>

datatype opcode =
    scanContinue
  | scanBeginDictionary | scanEndDictionary
  | scanBeginList | scanEndList
  | scanBeginInteger | scanInteger | scanEndInteger
  | scanBeginString | scanString
  | scanEnd | scanError

datatype frame =
    parseDictionaryKey | parseDictionaryValue
  | parseListValue
  | parseInteger
  | parseStringLength | parseString

text \<open>
  The field \<open>step\<close> holds one of the transition functions; \<open>StepNil\<close> is the nil function
  value of a scanner that was never reset.
\<close>

datatype stepfn =
    StepNil
  | Step_sv | Step_sd | Step_ssl0 | Step_ssl | Step_ssf | Step_ss | Step_se | Step_sl
  | Step_si | Step_sin | Step_si0 | Step_sil
  | Step_stateError | Step_stateEndTop

record scanner =
  step :: stepfn
  parseState :: "frame list"
  endTop :: bool
  err :: "error option"
  bytes :: "64 word"
  string :: "64 word"
  digits :: "char list"

text \<open>The zero value \<open>scanner{}\<close>.\<close>

definition scanner0 :: scanner where
  "scanner0 = \<lparr> step = StepNil, parseState = [], endTop = False, err = None,
                 bytes = 0, string = 0, digits = [] \<rparr>"

definition reset :: "scanner \<Rightarrow> scanner" where
  "reset s = s\<lparr> step := Step_sv, parseState := [], err := None, endTop := False, digits := [] \<rparr>"

definition scan_error :: "scanner \<Rightarrow> char \<Rightarrow> string \<Rightarrow> opcode \<times> scanner" where
  "scan_error s c context_msg =
     (scanError, s\<lparr> step := Step_stateError,
                     err := Some (SyntaxError (InvalidCharacter c context_msg) (bytes s)) \<rparr>)"

definition stateError :: "scanner \<Rightarrow> char \<Rightarrow> opcode \<times> scanner" where
  "stateError s c = (scanError, s)"

definition eof :: "scanner \<Rightarrow> opcode \<times> scanner" where
  "eof s =
     (if err s \<noteq> None then (scanError, s)
      else if endTop s then (scanEnd, s)
      else (scanError, s\<lparr> err := Some (SyntaxError UnexpectedEnd (bytes s)) \<rparr>))"

definition pushParseState :: "scanner \<Rightarrow> frame \<Rightarrow> scanner" where
  "pushParseState s p = s\<lparr> parseState := parseState s @ [p] \<rparr>"

text \<open>\<open>s.parseState[0:n]\<close> with \<open>n = -1\<close> panics.\<close>

definition popParseState :: "scanner \<Rightarrow> scanner outcome" where
  "popParseState s =
     (if parseState s = [] then Panics
      else
        let s1 = s\<lparr> parseState := butlast (parseState s) \<rparr>
        in if parseState s1 = [] then Returns (s1\<lparr> step := Step_stateEndTop, endTop := True \<rparr>)
           else Returns (s1\<lparr> step := Step_se \<rparr>))"

definition stateEndTop :: "scanner \<Rightarrow> char \<Rightarrow> opcode \<times> scanner" where
  "stateEndTop s c = (scanEnd, s)"

definition sv :: "scanner \<Rightarrow> char \<Rightarrow> opcode \<times> scanner" where
  "sv s c =
     (if c = CHR ''d'' then (scanBeginDictionary, pushParseState (s\<lparr> step := Step_sd \<rparr>) parseDictionaryKey)
      else if c = CHR ''l'' then (scanBeginList, pushParseState (s\<lparr> step := Step_sl \<rparr>) parseListValue)
      else if c = CHR ''i'' then (scanBeginInteger, pushParseState (s\<lparr> step := Step_si \<rparr>) parseInteger)
      else if c = CHR ''0'' then
        (scanBeginString,
         (pushParseState (s\<lparr> step := Step_ssl0 \<rparr>) parseStringLength)\<lparr> digits := digits s @ [c] \<rparr>)
      else if between CHR ''1'' CHR ''9'' c then
        (scanBeginString,
         (pushParseState (s\<lparr> step := Step_ssl \<rparr>) parseStringLength)\<lparr> digits := digits s @ [c] \<rparr>)
      else scan_error s c ''looking for value'')"

definition sd :: "scanner \<Rightarrow> char \<Rightarrow> (opcode \<times> scanner) outcome" where
  "sd s c =
     (if c = CHR ''e'' then obind (popParseState s) (\<lambda>s1. Returns (scanEndDictionary, s1))
      else if c = CHR ''0'' then
        Returns (scanBeginString,
          (pushParseState (s\<lparr> step := Step_ssl0 \<rparr>) parseStringLength)\<lparr> digits := digits s @ [c] \<rparr>)
      else if between CHR ''1'' CHR ''9'' c then
        Returns (scanBeginString,
          (pushParseState (s\<lparr> step := Step_ssl \<rparr>) parseStringLength)\<lparr> digits := digits s @ [c] \<rparr>)
      else Returns (scan_error s c ''looking for string length''))"

text \<open>
  \<open>ssle\<close> parses the accumulated digits, replaces the top frame by \<open>parseString\<close>
  (an index out of range when the stack is empty) and closes the string at once when its
  length is zero.
\<close>

definition ssle :: "scanner \<Rightarrow> char \<Rightarrow> (opcode \<times> scanner) outcome" where
  "ssle s c =
     (if string s = 0 then
        (case ParseUint (digits s) 64 of
           Inl e \<Rightarrow>
             Returns (scanError,
               s\<lparr> digits := [], err := Some (NumError e (digits s)), step := Step_stateError \<rparr>)
         | Inr n \<Rightarrow>
             if parseState s = [] then Panics
             else
               let s1 = s\<lparr> digits := [], string := of_nat n,
                          parseState := (parseState s)[length (parseState s) - 1 := parseString],
                          step := Step_ssf \<rparr>
               in if n = 0 then obind (popParseState s1) (\<lambda>s2. Returns (scanString, s2))
                  else Returns (scanContinue, s1))
      else Panics)"

definition ssl0 :: "scanner \<Rightarrow> char \<Rightarrow> (opcode \<times> scanner) outcome" where
  "ssl0 s c =
     (if c = CHR '':'' then ssle s c
      else Returns (scan_error s c ''looking for string length delimiter''))"

definition ssl :: "scanner \<Rightarrow> char \<Rightarrow> (opcode \<times> scanner) outcome" where
  "ssl s c =
     (if c = CHR '':'' then ssle s c
      else if between CHR ''0'' CHR ''9'' c then Returns (scanContinue, s\<lparr> digits := digits s @ [c] \<rparr>)
      else Returns (scan_error s c ''looking for string length digit''))"

definition ssf :: "scanner \<Rightarrow> char \<Rightarrow> (opcode \<times> scanner) outcome" where
  "ssf s c =
     (let s1 = s\<lparr> string := string s - 1 \<rparr>
      in if string s1 = 0 then obind (popParseState s1) (\<lambda>s2. Returns (scanString, s2))
         else Returns (scanString, s1\<lparr> step := Step_ss \<rparr>))"

definition ss :: "scanner \<Rightarrow> char \<Rightarrow> (opcode \<times> scanner) outcome" where
  "ss s c =
     (let s1 = s\<lparr> string := string s - 1 \<rparr>
      in if string s1 = 0 then obind (popParseState s1) (\<lambda>s2. Returns (scanContinue, s2))
         else Returns (scanContinue, s1))"

definition sl :: "scanner \<Rightarrow> char \<Rightarrow> (opcode \<times> scanner) outcome" where
  "sl s c =
     (if c = CHR ''e'' then obind (popParseState s) (\<lambda>s1. Returns (scanEndList, s1))
      else Returns (sv s c))"

definition se :: "scanner \<Rightarrow> char \<Rightarrow> (opcode \<times> scanner) outcome" where
  "se s c =
     (let n = length (parseState s)
      in if n = 0 then Returns (scanEnd, s\<lparr> step := Step_stateEndTop, endTop := True \<rparr>)
         else
           (case parseState s ! (n - 1) of
              parseString \<Rightarrow> Panics
            | parseDictionaryKey \<Rightarrow>
                Returns (sv (s\<lparr> parseState := (parseState s)[n - 1 := parseDictionaryValue] \<rparr>) c)
            | parseDictionaryValue \<Rightarrow>
                sd (s\<lparr> parseState := (parseState s)[n - 1 := parseDictionaryKey] \<rparr>) c
            | parseListValue \<Rightarrow> sl s c
            | parseInteger \<Rightarrow> Returns (scan_error s c ''DNE'')
            | parseStringLength \<Rightarrow> Returns (scan_error s c ''DNE'')))"

definition si :: "scanner \<Rightarrow> char \<Rightarrow> opcode \<times> scanner" where
  "si s c =
     (if c = CHR ''-'' then (scanInteger, s\<lparr> step := Step_sin \<rparr>)
      else if c = CHR ''0'' then (scanInteger, s\<lparr> step := Step_si0 \<rparr>)
      else if between CHR ''1'' CHR ''9'' c then (scanInteger, s\<lparr> step := Step_sil \<rparr>)
      else scan_error s c ''looking for integer'')"

definition sin :: "scanner \<Rightarrow> char \<Rightarrow> opcode \<times> scanner" where
  "sin s c =
     (if c = CHR ''0'' then scan_error s c ''negative zero not allowed''
      else if between CHR ''1'' CHR ''9'' c then (scanContinue, s\<lparr> step := Step_sil \<rparr>)
      else scan_error s c ''looking for integer'')"

definition si0 :: "scanner \<Rightarrow> char \<Rightarrow> (opcode \<times> scanner) outcome" where
  "si0 s c =
     (if c = CHR ''e'' then obind (popParseState s) (\<lambda>s1. Returns (scanEndInteger, s1))
      else Returns (scan_error s c ''leading zeroes not allowed''))"

definition sil :: "scanner \<Rightarrow> char \<Rightarrow> (opcode \<times> scanner) outcome" where
  "sil s c =
     (if c = CHR ''e'' then obind (popParseState s) (\<lambda>s1. Returns (scanEndInteger, s1))
      else if between CHR ''0'' CHR ''9'' c then Returns (scanContinue, s)
      else Returns (scan_error s c ''looking for integer''))"

text \<open>\<open>s.step(s, c)\<close>: the call through the function value held in \<open>step\<close>.\<close>

definition call_step :: "scanner \<Rightarrow> char \<Rightarrow> (opcode \<times> scanner) outcome" where
  "call_step s c =
     (case step s of
        StepNil \<Rightarrow> Panics
      | Step_sv \<Rightarrow> Returns (sv s c)
      | Step_sd \<Rightarrow> sd s c
      | Step_ssl0 \<Rightarrow> ssl0 s c
      | Step_ssl \<Rightarrow> ssl s c
      | Step_ssf \<Rightarrow> ssf s c
      | Step_ss \<Rightarrow> ss s c
      | Step_se \<Rightarrow> se s c
      | Step_sl \<Rightarrow> sl s c
      | Step_si \<Rightarrow> Returns (si s c)
      | Step_sin \<Rightarrow> Returns (sin s c)
      | Step_si0 \<Rightarrow> si0 s c
      | Step_sil \<Rightarrow> sil s c
      | Step_stateError \<Rightarrow> Returns (stateError s c)
      | Step_stateEndTop \<Rightarrow> Returns (stateEndTop s c))"

subsection \<open>checkValid and Valid\<close>

text \<open>
  The loop of \<open>checkValid\<close> over the bytes that remain; it returns the error (or nil)
  together with the scanner it leaves behind.
\<close>

fun checkValidLoop :: "char list \<Rightarrow> scanner \<Rightarrow> (error option \<times> scanner) outcome" where
  "checkValidLoop [] scan =
     (case eof scan of (op, scan1) \<Rightarrow>
        if op = scanError then Returns (err scan1, scan1) else Returns (None, scan1))"
| "checkValidLoop (c # cs) scan =
     obind (call_step (scan\<lparr> bytes := bytes scan + 1 \<rparr>) c)
       (\<lambda>(op, scan1). if op = scanError then Returns (err scan1, scan1) else checkValidLoop cs scan1)"

definition checkValid :: "char list \<Rightarrow> scanner \<Rightarrow> (error option \<times> scanner) outcome" where
  "checkValid data scan = checkValidLoop data (reset scan)"

definition Valid :: "char list \<Rightarrow> bool outcome" where
  "Valid data = obind (checkValid data scanner0) (\<lambda>(e, _). Returns (e = None))"

text \<open>
  Feeding bytes one at a time, as every caller does: \<open>scan.bytes++\<close> and then
  \<open>scan.step(scan, c)\<close>.  The opcode of the last byte is dropped here.
\<close>

fun feed :: "scanner \<Rightarrow> char list \<Rightarrow> scanner outcome" where
  "feed s [] = Returns s"
| "feed s (c # cs) =
     obind (call_step (s\<lparr> bytes := bytes s + 1 \<rparr>) c) (\<lambda>(op, s1). feed s1 cs)"

subsection \<open>The invariant that ties the transition function to the frame stack\<close>

definition container :: "frame \<Rightarrow> bool" where
  "container f = (f = parseDictionaryKey \<or> f = parseDictionaryValue \<or> f = parseListValue)"

definition top_is :: "scanner \<Rightarrow> frame \<Rightarrow> bool" where
  "top_is s f = (parseState s \<noteq> [] \<and> last (parseState s) = f)"

definition scan_inv :: "scanner \<Rightarrow> bool" where
  "scan_inv s =
     (if step s = Step_stateError then
        err s \<noteq> None \<and> \<not> endTop s \<and> \<not> top_is s parseString
      else
        err s = None \<and> list_all container (butlast (parseState s)) \<and>
        (case step s of
           StepNil \<Rightarrow> False
         | Step_stateError \<Rightarrow> False
         | Step_sv \<Rightarrow> parseState s = [] \<and> \<not> endTop s \<and> string s = 0
         | Step_sd \<Rightarrow> top_is s parseDictionaryKey \<and> \<not> endTop s \<and> string s = 0
         | Step_sl \<Rightarrow> top_is s parseListValue \<and> \<not> endTop s \<and> string s = 0
         | Step_ssl0 \<Rightarrow> top_is s parseStringLength \<and> \<not> endTop s \<and> string s = 0
         | Step_ssl \<Rightarrow> top_is s parseStringLength \<and> \<not> endTop s \<and> string s = 0
         | Step_ssf \<Rightarrow> top_is s parseString \<and> \<not> endTop s \<and> string s \<noteq> 0
         | Step_ss \<Rightarrow> top_is s parseString \<and> \<not> endTop s \<and> string s \<noteq> 0
         | Step_se \<Rightarrow> parseState s \<noteq> [] \<and> container (last (parseState s)) \<and>
                        \<not> endTop s \<and> string s = 0
         | Step_si \<Rightarrow> top_is s parseInteger \<and> \<not> endTop s \<and> string s = 0
         | Step_sin \<Rightarrow> top_is s parseInteger \<and> \<not> endTop s \<and> string s = 0
         | Step_si0 \<Rightarrow> top_is s parseInteger \<and> \<not> endTop s \<and> string s = 0
         | Step_sil \<Rightarrow> top_is s parseInteger \<and> \<not> endTop s \<and> string s = 0
         | Step_stateEndTop \<Rightarrow> parseState s = [] \<and> endTop s \<and> string s = 0))"

subsection \<open>What one step does to the frame stack\<close>

definition pushed_frame :: "opcode \<Rightarrow> frame option" where
  "pushed_frame op =
     (case op of
        scanBeginDictionary \<Rightarrow> Some parseDictionaryKey
      | scanBeginList \<Rightarrow> Some parseListValue
      | scanBeginInteger \<Rightarrow> Some parseInteger
      | scanBeginString \<Rightarrow> Some parseStringLength
      | _ \<Rightarrow> None)"

text \<open>
  The step that closes the construct on top of the stack: the \<open>e\<close> of a dictionary, list
  or integer, the \<open>:\<close> of an empty string, or the last body byte of a string.
\<close>

definition closes :: "scanner \<Rightarrow> opcode \<Rightarrow> scanner \<Rightarrow> bool" where
  "closes s op s' =
     (op = scanEndDictionary \<or> op = scanEndList \<or> op = scanEndInteger \<or>
      (top_is s parseString \<and> string s' = 0) \<or>
      (top_is s parseStringLength \<and> op = scanString))"

text \<open>Same depth and same frames below the top; the top frame may have been retagged.\<close>

definition same_nesting :: "frame list \<Rightarrow> frame list \<Rightarrow> bool" where
  "same_nesting xs ys = (length xs = length ys \<and> butlast xs = butlast ys)"

definition frame_step :: "scanner \<Rightarrow> opcode \<Rightarrow> scanner \<Rightarrow> bool" where
  "frame_step s op s' =
     ((case pushed_frame op of
         Some f \<Rightarrow>
           parseState s' \<noteq> [] \<and> last (parseState s') = f \<and>
           same_nesting (butlast (parseState s')) (parseState s)
       | None \<Rightarrow>
           if closes s op s' then parseState s \<noteq> [] \<and> parseState s' = butlast (parseState s)
           else same_nesting (parseState s') (parseState s)) \<and>
      (if op = scanEndDictionary then top_is s parseDictionaryKey \<or> top_is s parseDictionaryValue
       else if op = scanEndList then top_is s parseListValue
       else if op = scanEndInteger then top_is s parseInteger
       else True))"

text \<open>What a step from a state of the invariant delivers.\<close>

definition step_post :: "scanner \<Rightarrow> (opcode \<times> scanner) outcome \<Rightarrow> bool" where
  "step_post s r = (case r of Returns (op, s') \<Rightarrow> scan_inv s' \<and> step s' \<noteq> Step_sv
      \<and> bytes s' = bytes s \<and> frame_step s op s' \<and> ((op = scanError) = (err s' \<noteq> None))
    | _ \<Rightarrow> False)"

section \<open>The decode binder\<close>

type_synonym rvalue = "gotype \<times> goval"

record field =
  name :: string
  nameBytes :: string
  equalFold :: "string \<Rightarrow> string \<Rightarrow> bool"
  tag :: bool
  index :: "nat list"
  typ' :: gotype
  omitEmpty :: bool
  quoted :: bool

record decodeState =
  data :: string
  off :: nat
  opcode :: opcode
  scan :: scanner
  errorContext_Struct :: "gotype option"
  errorContext_Field :: string
  savedError :: "error option"
  useNumber :: bool
  disallowUnknownFields :: bool

definition decodeState0 :: decodeState where
  "decodeState0 = \<lparr> data = [], off = 0, opcode = scanContinue, scan = scanner0,
       errorContext_Struct = None, errorContext_Field = [], savedError = None,
       useNumber = False, disallowUnknownFields = False \<rparr>"

definition readIndex :: "decodeState \<Rightarrow> int" where
  "readIndex d = int (off d) - 1"

definition init :: "decodeState \<Rightarrow> string \<Rightarrow> decodeState" where
  "init d bs = d\<lparr> data := bs, off := 0, savedError := None,
                  errorContext_Struct := None, errorContext_Field := [] \<rparr>"

fun TypeName :: "gotype \<Rightarrow> string" where
  "TypeName (TStruct n fs) = n"
| "TypeName TBool = ''bool''"
| "TypeName TString = ''string''"
| "TypeName (TSigned k) =
     (if k = KInt8 then ''int8'' else if k = KInt16 then ''int16'' else if k = KInt32 then ''int32''
      else if k = KInt64 then ''int64'' else ''int'')"
| "TypeName (TUnsigned k) =
     (if k = KUint8 then ''uint8'' else if k = KUint16 then ''uint16'' else if k = KUint32 then ''uint32''
      else if k = KUint64 then ''uint64'' else if k = KUintptr then ''uintptr'' else ''uint'')"
| "TypeName _ = []"

definition addErrorContext :: "decodeState \<Rightarrow> error \<Rightarrow> error outcome" where
  "addErrorContext d e =
     (if errorContext_Struct d \<noteq> None \<or> errorContext_Field d \<noteq> [] then
        (case e of
           UnmarshalTypeError v t ofs st fl \<Rightarrow>
             (case errorContext_Struct d of
                None \<Rightarrow> Panics
              | Some sty \<Rightarrow> Returns (UnmarshalTypeError v t ofs (TypeName sty) (errorContext_Field d)))
         | _ \<Rightarrow> Returns e)
      else Returns e)"

definition saveError :: "decodeState \<Rightarrow> error \<Rightarrow> decodeState outcome" where
  "saveError d e =
     (if savedError d = None then
        obind (addErrorContext d e) (\<lambda>e1. Returns (d\<lparr> savedError := Some e1 \<rparr>))
      else Returns d)"

fun skipLoop :: "nat \<Rightarrow> scanner \<Rightarrow> string \<Rightarrow> nat \<Rightarrow> (scanner \<times> opcode \<times> nat) outcome" where
  "skipLoop depth s [] i = Panics"
| "skipLoop depth s (c # cs) i =
     obind (call_step s c)
       (\<lambda>(op, s1). if length (parseState s1) < depth then Returns (s1, op, i + 1)
                    else skipLoop depth s1 cs (i + 1))"

definition skip :: "decodeState \<Rightarrow> decodeState outcome" where
  "skip d =
     obind (skipLoop (length (parseState (scan d))) (scan d) (drop (off d) (data d)) (off d))
       (\<lambda>(s1, op, i). Returns (d\<lparr> scan := s1, off := i, opcode := op \<rparr>))"

definition scanNext :: "decodeState \<Rightarrow> decodeState outcome" where
  "scanNext d =
     (if off d < length (data d) then
        obind (call_step ((scan d)\<lparr> bytes := bytes (scan d) + 1 \<rparr>) (data d ! off d))
          (\<lambda>(op, s1). Returns (d\<lparr> scan := s1, opcode := op, off := off d + 1 \<rparr>))
      else
        (case eof (scan d) of
           (op, s1) \<Rightarrow> Returns (d\<lparr> scan := s1, opcode := op, off := length (data d) + 1 \<rparr>)))"

fun scanWhileLoop ::
  "opcode \<Rightarrow> scanner \<Rightarrow> string \<Rightarrow> nat \<Rightarrow> (scanner \<times> (opcode \<times> nat) option) outcome" where
  "scanWhileLoop op s [] i = Returns (s, None)"
| "scanWhileLoop op s (c # cs) i =
     obind (call_step s c)
       (\<lambda>(newOp, s1). if newOp \<noteq> op then Returns (s1, Some (newOp, i + 1))
                       else scanWhileLoop op s1 cs (i + 1))"

definition scanWhile :: "decodeState \<Rightarrow> opcode \<Rightarrow> decodeState outcome" where
  "scanWhile d op =
     obind (scanWhileLoop op (scan d) (drop (off d) (data d)) (off d))
       (\<lambda>(s1, r).
          case r of
            Some (newOp, i) \<Rightarrow> Returns (d\<lparr> scan := s1, opcode := newOp, off := i \<rparr>)
          | None \<Rightarrow>
              (case eof s1 of
                 (op1, s2) \<Rightarrow> Returns (d\<lparr> scan := s2, off := length (data d) + 1, opcode := op1 \<rparr>)))"

definition sliceBytes :: "string \<Rightarrow> int \<Rightarrow> int \<Rightarrow> string outcome" where
  "sliceBytes bs lo hi =
     (if 0 \<le> lo \<and> lo \<le> hi \<and> hi \<le> int (length bs)
      then Returns (take (nat (hi - lo)) (drop (nat lo) bs))
      else Panics)"

fun indirect :: "gotype \<Rightarrow> goval \<Rightarrow> gotype \<times> goval" where
  "indirect (TPtr t) (VPtr None) = indirect t (Zero t)"
| "indirect (TPtr t) (VPtr (Some x)) = indirect t x"
| "indirect t x = (t, x)"

fun rebuild :: "gotype \<Rightarrow> goval \<Rightarrow> goval" where
  "rebuild (TPtr t) x = VPtr (Some (rebuild t x))"
| "rebuild t x = x"

definition OverflowInt :: "nat \<Rightarrow> int \<Rightarrow> bool" where
  "OverflowInt bitSize n = (n < - (2 ^ (bitSize - 1)) \<or> 2 ^ (bitSize - 1) \<le> n)"

definition OverflowUint :: "nat \<Rightarrow> nat \<Rightarrow> bool" where
  "OverflowUint bitSize n = (2 ^ bitSize \<le> n)"

definition isSignedKind :: "kind \<Rightarrow> bool" where
  "isSignedKind k = (k = KInt \<or> k = KInt8 \<or> k = KInt16 \<or> k = KInt32 \<or> k = KInt64)"

definition isUnsignedCase :: "kind \<Rightarrow> bool" where
  "isUnsignedCase k = (k = KUint \<or> k = KUint8 \<or> k = KUint16 \<or> k = KUint64 \<or> k = KUintptr)"

definition integerStore ::
  "decodeState \<Rightarrow> string \<Rightarrow> rvalue \<Rightarrow> bool \<Rightarrow> (decodeState \<times> goval \<times> error option) outcome" where
  "integerStore d item v fromQuoted =
     (if item = [] then
        obind (saveError d (InvalidStringTag item (fst v))) (\<lambda>d1. Returns (d1, snd v, None))
      else
        (case indirect (fst v) (snd v) of (t, y) \<Rightarrow>
           let c = hd item;
               mismatch = (\<lambda>e. obind (saveError d e) (\<lambda>d1. Returns (d1, rebuild (fst v) y, None)))
           in
           if c \<noteq> CHR ''-'' \<and> \<not> between CHR ''0'' CHR ''9'' c then
             (if fromQuoted then Returns (d, rebuild (fst v) y, Some (InvalidStringTag item t))
              else Panics)
           else if isSignedKind (Kind t) then
             (case ParseInt item 64 of
                Inl e \<Rightarrow> mismatch (UnmarshalTypeError (''number '' @ item) t (word_of_int (readIndex d)) [] [])
              | Inr n \<Rightarrow>
                  if OverflowInt (Bits (Kind t)) n
                  then mismatch (UnmarshalTypeError (''number '' @ item) t (word_of_int (readIndex d)) [] [])
                  else Returns (d, rebuild (fst v) (VInt n), None))
           else if isUnsignedCase (Kind t) then
             (case ParseUint item 64 of
                Inl e \<Rightarrow> mismatch (UnmarshalTypeError (''number '' @ item) t (word_of_int (readIndex d)) [] [])
              | Inr n \<Rightarrow>
                  if OverflowUint (Bits (Kind t)) n
                  then mismatch (UnmarshalTypeError (''number '' @ item) t (word_of_int (readIndex d)) [] [])
                  else Returns (d, rebuild (fst v) (VUint n), None))
           else
             (if fromQuoted then Returns (d, rebuild (fst v) y, Some (InvalidStringTag item t))
              else mismatch (UnmarshalTypeError ''number'' t (word_of_int (readIndex d)) [] []))))"

subsection \<open>encoding/base64, StdEncoding.Decode\<close>

definition b64val :: "char \<Rightarrow> nat option" where
  "b64val c =
     (if between CHR ''A'' CHR ''Z'' c then Some (of_char c - 65)
      else if between CHR ''a'' CHR ''z'' c then Some (of_char c - 97 + 26)
      else if between CHR ''0'' CHR ''9'' c then Some (of_char c - 48 + 52)
      else if c = CHR ''+'' then Some 62
      else if c = CHR ''/'' then Some 63
      else None)"

fun b64quanta :: "char list \<Rightarrow> nat list option" where
  "b64quanta [] = Some []"
| "b64quanta (a # b # c # d # rest) =
     (case (b64val a, b64val b) of
        (Some x, Some y) \<Rightarrow>
          if c = CHR ''='' then
            (if d = CHR ''='' \<and> rest = [] then Some [(x * 64 + y) div 16] else None)
          else
            (case b64val c of
               None \<Rightarrow> None
             | Some z \<Rightarrow>
                 if d = CHR ''='' then
                   (if rest = [] then
                      Some [((x * 64 + y) * 64 + z) div 1024, (((x * 64 + y) * 64 + z) div 4) mod 256]
                    else None)
                 else
                   (case b64val d of
                      None \<Rightarrow> None
                    | Some w \<Rightarrow>
                        let n = ((x * 64 + y) * 64 + z) * 64 + w
                        in (case b64quanta rest of
                              None \<Rightarrow> None
                            | Some bs \<Rightarrow> Some (n div 65536 # (n div 256) mod 256 # n mod 256 # bs))))
      | _ \<Rightarrow> None)"
| "b64quanta _ = None"

definition base64_Decode :: "string \<Rightarrow> nat list option" where
  "base64_Decode s = b64quanta (filter (\<lambda>c. c \<noteq> CHR 0x0D \<and> c \<noteq> CHR 0x0A) s)"

definition base64_DecodedLen :: "nat \<Rightarrow> nat" where
  "base64_DecodedLen n = n div 4 * 3"

definition stringStore ::
  "decodeState \<Rightarrow> string \<Rightarrow> rvalue \<Rightarrow> bool \<Rightarrow> (decodeState \<times> goval \<times> error option) outcome" where
  "stringStore d item v fromQuoted =
     (if item = [] then
        obind (saveError d (InvalidStringTag item (fst v))) (\<lambda>d1. Returns (d1, snd v, None))
      else
        (case indirect (fst v) (snd v) of (t, y) \<Rightarrow>
           let mismatch = (\<lambda>e. obind (saveError d e) (\<lambda>d1. Returns (d1, rebuild (fst v) y, None)))
           in
           (case t of
              TSlice te \<Rightarrow>
                if Kind te \<noteq> KUint8 then
                  mismatch (UnmarshalTypeError ''string'' t (word_of_int (readIndex d)) [] [])
                else
                  (case base64_Decode item of
                     None \<Rightarrow> mismatch CorruptInputError
                   | Some bs \<Rightarrow>
                       Returns (d,
                         rebuild (fst v)
                           (VSlice (map VUint bs @
                                    replicate (base64_DecodedLen (length item) - length bs) (VUint 0))
                              (length bs)),
                         None))
            | TString \<Rightarrow> Returns (d, rebuild (fst v) (VString item), None)
            | _ \<Rightarrow> mismatch (UnmarshalTypeError ''string'' t (word_of_int (readIndex d)) [] []))))"

subsection \<open>Sequences: reflect.Value of kind Slice or Array\<close>

fun Len :: "goval \<Rightarrow> nat" where
  "Len (VSlice b n) = n"
| "Len (VArray xs) = length xs"
| "Len _ = 0"

fun Cap :: "goval \<Rightarrow> nat" where
  "Cap (VSlice b n) = length b"
| "Cap (VArray xs) = length xs"
| "Cap _ = 0"

fun Elem :: "gotype \<Rightarrow> gotype" where
  "Elem (TSlice t) = t"
| "Elem (TArray n t) = t"
| "Elem (TPtr t) = t"
| "Elem (TMap k t) = t"
| "Elem t = t"

text \<open>\<open>v.Index(i)\<close> panics when \<open>i\<close> is not below the length.\<close>

fun Index :: "goval \<Rightarrow> nat \<Rightarrow> goval outcome" where
  "Index (VSlice b n) i = (if i < n \<and> i < length b then Returns (b ! i) else Panics)"
| "Index (VArray xs) i = (if i < length xs then Returns (xs ! i) else Panics)"
| "Index _ i = Panics"

text \<open>Writing through \<open>v.Index(i)\<close>.\<close>

fun SetIndex :: "goval \<Rightarrow> nat \<Rightarrow> goval \<Rightarrow> goval" where
  "SetIndex (VSlice b n) i e = VSlice (b[i := e]) n"
| "SetIndex (VArray xs) i e = VArray (xs[i := e])"
| "SetIndex y i e = y"

text \<open>\<open>v.SetLen(n)\<close> panics when \<open>n\<close> exceeds the capacity.\<close>

fun SetLen :: "goval \<Rightarrow> nat \<Rightarrow> goval outcome" where
  "SetLen (VSlice b n) m = (if m \<le> length b then Returns (VSlice b m) else Panics)"
| "SetLen _ m = Panics"

text \<open>
  The start of each round of the loop in \<open>list\<close>: a slice that is full gets a new backing
  array of capacity \<open>cap + cap/2\<close>, at least 4, and the old elements copied; then its
  length is raised to cover slot \<open>i\<close>.
\<close>

definition growSlice :: "gotype \<Rightarrow> goval \<Rightarrow> nat \<Rightarrow> goval outcome" where
  "growSlice t y i =
     (if Kind t = KSlice then
        (let y1 =
           (if i \<ge> Cap y then
              (let newcap0 = Cap y + Cap y div 2;
                   newcap = (if newcap0 < 4 then 4 else newcap0)
               in (case y of
                     VSlice b n \<Rightarrow> VSlice (take n b @ replicate (newcap - n) (Zero (Elem t))) n
                   | _ \<Rightarrow> y))
            else y)
         in if i \<ge> Len y1 then SetLen y1 (i + 1) else Returns y1)
      else Returns y)"

text \<open>The end of \<open>list\<close>, after the loop has seen \<open>i\<close> elements.\<close>

definition listFinish :: "gotype \<Rightarrow> goval \<Rightarrow> nat \<Rightarrow> goval outcome" where
  "listFinish t y i =
     obind
       (if i < Len y then
          (if Kind t = KArray then
             (case y of
                VArray xs \<Rightarrow> Returns (VArray (take i xs @ replicate (length xs - i) (Zero (Elem t))))
              | _ \<Rightarrow> Panics)
           else SetLen y i)
        else Returns y)
       (\<lambda>y1. if i = 0 \<and> Kind t = KSlice then Returns (VSlice [] 0) else Returns y1)"

type_synonym valuefn =
  "decodeState \<Rightarrow> rvalue option \<Rightarrow> (decodeState \<times> rvalue option \<times> error option) outcome"

fun listLoop ::
  "valuefn \<Rightarrow> nat \<Rightarrow> decodeState \<Rightarrow> gotype \<Rightarrow> goval \<Rightarrow> nat \<Rightarrow>
     (decodeState \<times> goval \<times> nat \<times> error option) outcome" where
  "listLoop valuef 0 d t y i = OutOfFuel"
| "listLoop valuef (Suc n) d t y i =
     (if opcode d = scanEndList then Returns (d, y, i, None)
      else if opcode d \<noteq> scanBeginInteger \<and> opcode d \<noteq> scanBeginList \<and>
              opcode d \<noteq> scanBeginDictionary \<and> opcode d \<noteq> scanBeginString then Panics
      else
        obind (growSlice t y i)
          (\<lambda>y1.
             if i < Len y1 then
               obind (Index y1 i)
                 (\<lambda>e. obind (valuef d (Some (Elem t, e)))
                    (\<lambda>(d1, r, er).
                       let y2 = (case r of Some (te, e1) \<Rightarrow> SetIndex y1 i e1 | None \<Rightarrow> y1)
                       in case er of
                            Some e2 \<Rightarrow> Returns (d1, y2, i, Some e2)
                          | None \<Rightarrow> listLoop valuef n d1 t y2 (i + 1)))
             else
               obind (valuef d None)
                 (\<lambda>(d1, r, er).
                    case er of
                      Some e2 \<Rightarrow> Returns (d1, y1, i, Some e2)
                    | None \<Rightarrow> listLoop valuef n d1 t y1 (i + 1))))"

definition list' ::
  "valuefn \<Rightarrow> nat \<Rightarrow> decodeState \<Rightarrow> rvalue \<Rightarrow> (decodeState \<times> goval \<times> error option) outcome" where
  "list' valuef fuel d v =
     (case indirect (fst v) (snd v) of (t, y) \<Rightarrow>
        if Kind t = KArray \<or> Kind t = KSlice then
          obind (scanNext d)
            (\<lambda>d1. obind (listLoop valuef fuel d1 t y 0)
               (\<lambda>(d2, y2, i, er).
                  case er of
                    Some e \<Rightarrow> Returns (d2, rebuild (fst v) y2, Some e)
                  | None \<Rightarrow>
                      obind (listFinish t y2 i) (\<lambda>y3. Returns (d2, rebuild (fst v) y3, None))))
        else
          obind (saveError d (UnmarshalTypeError ''list'' t (of_nat (off d)) [] []))
            (\<lambda>d1. obind (skip d1) (\<lambda>d2. Returns (d2, rebuild (fst v) y, None))))"

subsection \<open>Dictionaries into maps and structs\<close>

fun findField :: "field list \<Rightarrow> string \<Rightarrow> field option \<Rightarrow> field option" where
  "findField [] key f = f"
| "findField (ff # fs) key f =
     (if nameBytes ff = key then Some ff
      else if f = None \<and> equalFold ff (nameBytes ff) key then findField fs key (Some ff)
      else findField fs key f)"

text \<open>\<open>v.SetMapIndex(kv, subv)\<close> on the association list.\<close>

fun mapAssign :: "string \<Rightarrow> goval \<Rightarrow> (string \<times> goval) list \<Rightarrow> (string \<times> goval) list" where
  "mapAssign k x [] = [(k, x)]"
| "mapAssign k x (p # ps) = (if fst p = k then (k, x) # ps else p # mapAssign k x ps)"

fun SetMapIndex :: "goval \<Rightarrow> string \<Rightarrow> goval \<Rightarrow> goval outcome" where
  "SetMapIndex (VMap (Some m)) k x = Returns (VMap (Some (mapAssign k x m)))"
| "SetMapIndex _ k x = Panics"

text \<open>
  The walk along \<open>f.index\<close>: through each pointer (a nil one is allocated, unless it
  cannot be set, which is the case for an embedded pointer whose field is not exported)
  and into field \<open>i\<close>.  The function \<open>k\<close> runs on what the walk reaches (\<open>Inl\<close>) or on the
  failure (\<open>Inr\<close>, with the pointee type); what it stores is put back on the way out.
\<close>

fun walkIndex ::
  "gotype \<Rightarrow> goval \<Rightarrow> nat list \<Rightarrow> bool \<Rightarrow>
   (rvalue + gotype \<Rightarrow> ('s \<times> goval option) outcome) \<Rightarrow> ('s \<times> goval) outcome" where
  "walkIndex T x [] canSet k =
     obind (k (Inl (T, x))) (\<lambda>(s, r). Returns (s, case r of Some x1 \<Rightarrow> x1 | None \<Rightarrow> x))"
| "walkIndex T x (i # is) canSet k =
     (let into = (\<lambda>T1 x1 wrap.
            case (T1, x1) of
              (TStruct n fs, VStruct vals) \<Rightarrow>
                if i < length fs \<and> i < length vals then
                  obind (walkIndex (snd (snd (fs ! i))) (vals ! i) is (fst (snd (fs ! i))) k)
                    (\<lambda>(s, fv). Returns (s, wrap (VStruct (vals[i := fv]))))
                else Panics
            | _ \<Rightarrow> Panics)
      in case T of
           TPtr T1 \<Rightarrow>
             (case x of
                VPtr None \<Rightarrow>
                  if \<not> canSet then obind (k (Inr T1)) (\<lambda>(s, r). Returns (s, x))
                  else into T1 (Zero T1) (\<lambda>y. VPtr (Some y))
              | VPtr (Some x1) \<Rightarrow> into T1 x1 (\<lambda>y. VPtr (Some y))
              | _ \<Rightarrow> Panics)
         | _ \<Rightarrow> into T x (\<lambda>y. y))"

fun dictLoop ::
  "field list \<Rightarrow> valuefn \<Rightarrow> nat \<Rightarrow> decodeState \<Rightarrow> gotype \<Rightarrow> goval \<Rightarrow> gotype option \<times> string \<Rightarrow>
     (decodeState \<times> goval \<times> error option) outcome" where
  "dictLoop ftab valuef 0 d t y orig = OutOfFuel"
| "dictLoop ftab valuef (Suc n) d t y orig =
     (if opcode d = scanEndDictionary then Returns (d, y, None)
      else if opcode d \<noteq> scanBeginString then Panics
      else
        obind (scanWhile d scanContinue)
          (\<lambda>d1.
             if opcode d1 \<noteq> scanString then Panics
             else
               obind (scanWhile d1 scanContinue)
                 (\<lambda>d2.
                    obind (sliceBytes (data d2) (readIndex d1) (readIndex d2))
                      (\<lambda>key.
                         obind
                           (if Kind t = KMap then
                              obind (valuef d2 (Some (Elem t, Zero (Elem t))))
                                (\<lambda>(d4, r, er).
                                   case er of
                                     Some e \<Rightarrow> Returns ((d4, Some e), y)
                                   | None \<Rightarrow>
                                       obind (SetMapIndex y key
                                                (case r of Some (te, x) \<Rightarrow> x | None \<Rightarrow> Zero (Elem t)))
                                         (\<lambda>y1. Returns ((d4, None), y1)))
                            else
                              (case findField ftab key None of
                                 Some f \<Rightarrow>
                                   walkIndex t y (index f) True
                                     (\<lambda>target.
                                        obind
                                          (case target of
                                             Inl tgt \<Rightarrow> Returns (d2, Some tgt, quoted f)
                                           | Inr pt \<Rightarrow>
                                               obind (saveError d2 (CannotSetEmbeddedPointer pt))
                                                 (\<lambda>d3. Returns (d3, None, False)))
                                          (\<lambda>(d3, subv, destring).
                                             if destring then Panics
                                             else
                                               obind
                                                 (valuef
                                                    (d3\<lparr> errorContext_Field := name f,
                                                          errorContext_Struct := Some t \<rparr>)
                                                    subv)
                                                 (\<lambda>(d4, r, er). Returns ((d4, er), map_option snd r))))
                               | None \<Rightarrow>
                                   obind
                                     (if disallowUnknownFields d2
                                      then saveError d2 (UnknownField key) else Returns d2)
                                     (\<lambda>d3. obind (valuef d3 None)
                                        (\<lambda>(d4, r, er). Returns ((d4, er), y)))))
                           (\<lambda>((d4, er), y1).
                              case er of
                                Some e \<Rightarrow> Returns (d4, y1, Some e)
                              | None \<Rightarrow>
                                  if opcode d4 = scanEndDictionary then Returns (d4, y1, None)
                                  else
                                    dictLoop ftab valuef n
                                      (d4\<lparr> errorContext_Struct := fst orig,
                                            errorContext_Field := snd orig \<rparr>)
                                      t y1 orig)))))"

definition dictionary ::
  "(gotype \<Rightarrow> field list) \<Rightarrow> valuefn \<Rightarrow> nat \<Rightarrow> decodeState \<Rightarrow> rvalue \<Rightarrow>
     (decodeState \<times> goval \<times> error option) outcome" where
  "dictionary cachedTypeFields valuef fuel d v =
     (case indirect (fst v) (snd v) of (t, y) \<Rightarrow>
        let mismatch =
              obind (saveError d (UnmarshalTypeError ''dictionary'' t (of_nat (off d)) [] []))
                (\<lambda>d1. obind (skip d1) (\<lambda>d2. Returns (d2, rebuild (fst v) y, None)));
            run = (\<lambda>ftab y1.
              obind (scanWhile d scanContinue)
                (\<lambda>d1. obind (dictLoop ftab valuef fuel d1 t y1
                                (errorContext_Struct d, errorContext_Field d))
                   (\<lambda>(d2, y2, er). Returns (d2, rebuild (fst v) y2, er))))
        in (case t of
              TMap kt et \<Rightarrow>
                if Kind kt \<noteq> KString then mismatch
                else run [] (if y = VMap None then VMap (Some []) else y)
            | TStruct n fs \<Rightarrow> run (cachedTypeFields t) y
            | _ \<Rightarrow> mismatch))"

fun value' ::
  "(gotype \<Rightarrow> field list) \<Rightarrow> nat \<Rightarrow> decodeState \<Rightarrow> rvalue option \<Rightarrow>
     (decodeState \<times> rvalue option \<times> error option) outcome" where
  "value' cachedTypeFields 0 d v = OutOfFuel"
| "value' cachedTypeFields (Suc n) d v =
     (case opcode d of
        scanBeginDictionary \<Rightarrow>
          obind
            (case v of
               Some rv \<Rightarrow>
                 obind (dictionary cachedTypeFields (value' cachedTypeFields n) n d rv)
                   (\<lambda>(d1, x, er). Returns (d1, Some (fst rv, x), er))
             | None \<Rightarrow> obind (skip d) (\<lambda>d1. Returns (d1, None, None)))
            (\<lambda>(d1, r, er).
               case er of
                 Some e \<Rightarrow> Returns (d1, r, Some e)
               | None \<Rightarrow> obind (scanNext d1) (\<lambda>d2. Returns (d2, r, None)))
      | scanBeginList \<Rightarrow>
          obind
            (case v of
               Some rv \<Rightarrow>
                 obind (list' (value' cachedTypeFields n) n d rv)
                   (\<lambda>(d1, x, er). Returns (d1, Some (fst rv, x), er))
             | None \<Rightarrow> obind (skip d) (\<lambda>d1. Returns (d1, None, None)))
            (\<lambda>(d1, r, er).
               case er of
                 Some e \<Rightarrow> Returns (d1, r, Some e)
               | None \<Rightarrow> obind (scanNext d1) (\<lambda>d2. Returns (d2, r, None)))
      | scanBeginInteger \<Rightarrow>
          obind (scanNext d)
            (\<lambda>d1.
               if opcode d1 \<noteq> scanInteger then Panics
               else
                 obind (scanWhile d1 scanContinue)
                   (\<lambda>d2.
                      obind
                        (case v of
                           Some rv \<Rightarrow>
                             obind (sliceBytes (data d2) (readIndex d1) (readIndex d2))
                               (\<lambda>item. obind (integerStore d2 item rv False)
                                  (\<lambda>(d3, x, er). Returns (d3, Some (fst rv, x), er)))
                         | None \<Rightarrow> Returns (d2, None, None))
                        (\<lambda>(d3, r, er).
                           case er of
                             Some e \<Rightarrow> Returns (d3, r, Some e)
                           | None \<Rightarrow> obind (scanNext d3) (\<lambda>d4. Returns (d4, r, None)))))
      | scanBeginString \<Rightarrow>
          obind (scanWhile d scanContinue)
            (\<lambda>d1.
               if opcode d1 \<noteq> scanString then Panics
               else
                 obind (scanWhile d1 scanContinue)
                   (\<lambda>d2.
                      case v of
                        Some rv \<Rightarrow>
                          obind (sliceBytes (data d2) (readIndex d1) (readIndex d2))
                            (\<lambda>item. obind (stringStore d2 item rv False)
                               (\<lambda>(d3, x, er). Returns (d3, Some (fst rv, x), er)))
                      | None \<Rightarrow> Returns (d2, None, None)))
      | _ \<Rightarrow> Panics)"

text \<open>The \<open>interface{}\<close> argument of \<open>Unmarshal\<close> and \<open>Decode\<close>: nil, or a typed value.\<close>

datatype iface = NilIface | Iface gotype goval

definition unmarshal ::
  "(gotype \<Rightarrow> field list) \<Rightarrow> nat \<Rightarrow> decodeState \<Rightarrow> iface \<Rightarrow> (error option \<times> decodeState \<times> iface) outcome" where
  "unmarshal cachedTypeFields fuel d v =
     (case v of
        NilIface \<Rightarrow> Returns (Some (InvalidUnmarshalError None), d, v)
      | Iface T x \<Rightarrow>
          if Kind T \<noteq> KPtr \<or> x = VPtr None then Returns (Some (InvalidUnmarshalError (Some T)), d, v)
          else
            obind (scanNext (d\<lparr> scan := reset (scan d) \<rparr>))
              (\<lambda>d2.
                 if bytes (scan d2) = 0 then Returns (Some EOF, d2, v)
                 else
                   obind (value' cachedTypeFields fuel d2 (Some (T, x)))
                     (\<lambda>(d3, r, er).
                        let v1 = (case r of Some (T1, x1) \<Rightarrow> Iface T1 x1 | None \<Rightarrow> v)
                        in (case er of
                              Some e \<Rightarrow> obind (addErrorContext d3 e) (\<lambda>e1. Returns (Some e1, d3, v1))
                            | None \<Rightarrow> Returns (savedError d3, d3, v1)))))"

definition Unmarshal ::
  "(gotype \<Rightarrow> field list) \<Rightarrow> nat \<Rightarrow> string \<Rightarrow> iface \<Rightarrow> (error option \<times> iface) outcome" where
  "Unmarshal cachedTypeFields fuel bs v =
     obind (checkValid bs (scan decodeState0))
       (\<lambda>(er, s).
          case er of
            Some e \<Rightarrow> Returns (Some e, v)
          | None \<Rightarrow>
              obind (unmarshal cachedTypeFields fuel (init (decodeState0\<lparr> scan := s \<rparr>) bs) v)
                (\<lambda>(er1, d1, v1). Returns (er1, v1)))"

section \<open>The streaming decoder\<close>

text \<open>
  The byte source: what each coming call of \<open>Read\<close> delivers, bytes and error.  A call
  takes no more bytes than its buffer holds and leaves the rest for the next call; when
  nothing is left, \<open>Read\<close> answers \<open>io.EOF\<close>.
\<close>

type_synonym reader = "(string \<times> error option) list"

fun Read :: "reader \<Rightarrow> nat \<Rightarrow> string \<times> error option \<times> reader" where
  "Read [] k = ([], Some EOF, [])"
| "Read ((bs, e) # rest) k =
     (if length bs \<le> k then (bs, e, rest) else (take k bs, None, (drop k bs, e) # rest))"









lemma Read_empty: "Read [] k = ([], Some EOF, [])"
  by simp









fun invalidDestination :: "iface \<Rightarrow> bool" where
  "invalidDestination NilIface = True"
| "invalidDestination (Iface T x) = (Kind T \<noteq> KPtr \<or> x = VPtr None)"

fun TypeOf :: "iface \<Rightarrow> gotype option" where
  "TypeOf NilIface = None"
| "TypeOf (Iface T x) = Some T"

section \<open>Grammar conformance (C1)\<close>

lemmas scan_defs = Valid_def checkValid_def scanner0_def reset_def call_step_def sv_def sd_def
  ssl0_def ssl_def ssle_def ssf_def ss_def se_def sl_def si_def sin_def si0_def sil_def
  stateError_def stateEndTop_def eof_def pushParseState_def popParseState_def scan_error_def
  obind_def between_def ParseUint_def digitVal_def Let_def

lemma valid_d: "Valid ''d'' = Returns False" by (simp add: scan_defs)
lemma valid_de: "Valid ''de'' = Returns True" by (simp add: scan_defs)
lemma valid_le: "Valid ''le'' = Returns True" by (simp add: scan_defs)
lemma valid_i0e: "Valid ''i0e'' = Returns True" by (simp add: scan_defs)
lemma valid_i_minus_0e: "Valid ''i-0e'' = Returns False" by (simp add: scan_defs)
lemma valid_i01e: "Valid ''i01e'' = Returns False" by (simp add: scan_defs)
lemma valid_0_colon: "Valid ''0:'' = Returns True" by (simp add: scan_defs)
lemma valid_1_colon: "Valid ''1:'' = Returns False" by (simp add: scan_defs)
lemma valid_1_colon_a: "Valid ''1:a'' = Returns True" by (simp add: scan_defs)
lemma valid_d3fooi0ee: "Valid ''d3:fooi0ee'' = Returns True" by (simp add: scan_defs)
lemma valid_d3fooe: "Valid ''d3:fooe'' = Returns False" by (simp add: scan_defs)
lemma valid_d0_0_e: "Valid ''d0:0:e'' = Returns True" by (simp add: scan_defs)
lemma valid_llleee: "Valid ''llleee'' = Returns True" by (simp add: scan_defs)
lemma valid_ld0_0_e0_e: "Valid ''ld0:0:e0:e'' = Returns True" by (simp add: scan_defs)

text \<open>
  Claim C1.  On every input of the grammar-conformance table the validator \<open>Valid\<close>
  returns (it does not panic) exactly the listed boolean.
\<close>

theorem C1_grammar_conformance_table:
  "Valid ''d'' = Returns False \<and>
   Valid ''de'' = Returns True \<and>
   Valid ''le'' = Returns True \<and>
   Valid ''i0e'' = Returns True \<and>
   Valid ''i-0e'' = Returns False \<and>
   Valid ''i01e'' = Returns False \<and>
   Valid ''0:'' = Returns True \<and>
   Valid ''1:'' = Returns False \<and>
   Valid ''1:a'' = Returns True \<and>
   Valid ''d3:fooi0ee'' = Returns True \<and>
   Valid ''d3:fooe'' = Returns False \<and>
   Valid ''d0:0:e'' = Returns True \<and>
   Valid ''llleee'' = Returns True \<and>
   Valid ''ld0:0:e0:e'' = Returns True"
  by (simp only: valid_d valid_de valid_le valid_i0e valid_i_minus_0e valid_i01e valid_0_colon
      valid_1_colon valid_1_colon_a valid_d3fooi0ee valid_d3fooe valid_d0_0_e valid_llleee
      valid_ld0_0_e0_e simp_thms)

section \<open>Scanner invariants (C9, C7, C10)\<close>

lemma parseUintLoop_le: "parseUintLoop m n cs = Inr k \<Longrightarrow> n \<le> m \<Longrightarrow> k \<le> m"
  by (induction cs arbitrary: n) (auto split: option.splits if_splits)

lemma ParseUint_64: "ParseUint ds 64 = Inr n \<Longrightarrow> n < 2 ^ 64"
  using parseUintLoop_le [of "2 ^ 64 - 1" 0 ds n] by (auto simp: ParseUint_def split: if_splits)

lemma of_nat_64_eq_0: "n < 2 ^ 64 \<Longrightarrow> ((of_nat n :: 64 word) = 0) = (n = 0)"
  by (auto simp: word_of_nat_eq_0_iff dest: dvd_imp_le)

lemma ParseUint_64_word: "ParseUint ds 64 = Inr n \<Longrightarrow> (of_nat n :: 64 word) = 0 \<Longrightarrow> n = 0"
  using ParseUint_64 [of ds n] of_nat_64_eq_0 [of n] by simp

lemma scan_inv_bytes [simp]: "scan_inv (s\<lparr> bytes := b \<rparr>) = scan_inv s"
  by (simp add: scan_inv_def top_is_def cong: stepfn.case_cong)

lemma list_all_butlast: "list_all P xs \<Longrightarrow> list_all P (butlast xs)"
  by (induction xs) auto

lemma list_all_last: "list_all P xs \<Longrightarrow> xs \<noteq> [] \<Longrightarrow> P (last xs)"
  by (induction xs) auto

lemma top_is_snoc: "top_is s f \<Longrightarrow> \<exists>qs. parseState s = qs @ [f]"
  by (cases "parseState s" rule: rev_cases) (auto simp: top_is_def)

lemma nonempty_snoc: "xs \<noteq> [] \<Longrightarrow> \<exists>qs f. xs = qs @ [f]"
  by (cases xs rule: rev_cases) auto

lemma container_simps [simp]:
  "container parseDictionaryKey" "container parseDictionaryValue" "container parseListValue"
  "\<not> container parseInteger" "\<not> container parseStringLength" "\<not> container parseString"
  by (simp_all add: container_def)

lemma butlast_snoc2 [simp]: "butlast (xs @ [a, b]) = xs @ [a]"
  by (simp add: butlast_append)

lemma container_last: "list_all container qs \<Longrightarrow> qs \<noteq> [] \<Longrightarrow> container (last qs)"
  by (rule list_all_last)

lemmas post_defs = step_post_def scan_inv_def top_is_def pushParseState_def scan_error_def
  popParseState_def obind_def Let_def list_all_butlast container_last
  frame_step_def pushed_frame_def closes_def same_nesting_def

lemma post_sv: "scan_inv s \<Longrightarrow> step s = Step_sv \<Longrightarrow> step_post s (call_step s c)"
  by (auto simp: call_step_def sv_def post_defs)

lemma post_sd:
  assumes "scan_inv s" "step s = Step_sd" shows "step_post s (call_step s c)"
proof -
  from assms obtain qs where qs: "parseState s = qs @ [parseDictionaryKey]"
    using top_is_snoc [of s parseDictionaryKey] by (auto simp: scan_inv_def)
  show ?thesis using assms qs
    by (auto simp: call_step_def sd_def post_defs)
qed

lemma post_sl:
  assumes "scan_inv s" "step s = Step_sl" shows "step_post s (call_step s c)"
proof -
  from assms obtain qs where qs: "parseState s = qs @ [parseListValue]"
    using top_is_snoc [of s parseListValue] by (auto simp: scan_inv_def)
  show ?thesis using assms qs
    by (auto simp: call_step_def sl_def sv_def post_defs)
qed

lemma post_si:
  assumes "scan_inv s" "step s = Step_si" shows "step_post s (call_step s c)"
proof -
  from assms obtain qs where qs: "parseState s = qs @ [parseInteger]"
    using top_is_snoc [of s parseInteger] by (auto simp: scan_inv_def)
  show ?thesis using assms qs
    by (auto simp: call_step_def si_def post_defs)
qed

lemma post_sin:
  assumes "scan_inv s" "step s = Step_sin" shows "step_post s (call_step s c)"
proof -
  from assms obtain qs where qs: "parseState s = qs @ [parseInteger]"
    using top_is_snoc [of s parseInteger] by (auto simp: scan_inv_def)
  show ?thesis using assms qs
    by (auto simp: call_step_def sin_def post_defs)
qed

lemma post_si0:
  assumes "scan_inv s" "step s = Step_si0" shows "step_post s (call_step s c)"
proof -
  from assms obtain qs where qs: "parseState s = qs @ [parseInteger]"
    using top_is_snoc [of s parseInteger] by (auto simp: scan_inv_def)
  show ?thesis using assms qs
    by (auto simp: call_step_def si0_def post_defs)
qed

lemma post_sil:
  assumes "scan_inv s" "step s = Step_sil" shows "step_post s (call_step s c)"
proof -
  from assms obtain qs where qs: "parseState s = qs @ [parseInteger]"
    using top_is_snoc [of s parseInteger] by (auto simp: scan_inv_def)
  show ?thesis using assms qs
    by (auto simp: call_step_def sil_def post_defs)
qed

lemma post_ssl0:
  assumes "scan_inv s" "step s = Step_ssl0" shows "step_post s (call_step s c)"
proof -
  from assms obtain qs where qs: "parseState s = qs @ [parseStringLength]"
    using top_is_snoc [of s parseStringLength] by (auto simp: scan_inv_def)
  show ?thesis using assms qs
    by (auto simp: call_step_def ssl0_def ssle_def post_defs split: sum.splits dest: ParseUint_64_word)
qed

lemma post_ssl:
  assumes "scan_inv s" "step s = Step_ssl" shows "step_post s (call_step s c)"
proof -
  from assms obtain qs where qs: "parseState s = qs @ [parseStringLength]"
    using top_is_snoc [of s parseStringLength] by (auto simp: scan_inv_def)
  show ?thesis using assms qs
    by (auto simp: call_step_def ssl_def ssle_def post_defs split: sum.splits dest: ParseUint_64_word)
qed

lemma post_ssf:
  assumes "scan_inv s" "step s = Step_ssf" shows "step_post s (call_step s c)"
proof -
  from assms obtain qs where qs: "parseState s = qs @ [parseString]"
    using top_is_snoc [of s parseString] by (auto simp: scan_inv_def)
  show ?thesis using assms qs
    by (auto simp: call_step_def ssf_def post_defs)
qed

lemma post_ss:
  assumes "scan_inv s" "step s = Step_ss" shows "step_post s (call_step s c)"
proof -
  from assms obtain qs where qs: "parseState s = qs @ [parseString]"
    using top_is_snoc [of s parseString] by (auto simp: scan_inv_def)
  show ?thesis using assms qs
    by (auto simp: call_step_def ss_def post_defs)
qed

lemma post_stateError:
  assumes "scan_inv s" "step s = Step_stateError" shows "step_post s (call_step s c)"
  using assms by (auto simp: call_step_def stateError_def post_defs)

lemma post_stateEndTop:
  assumes "scan_inv s" "step s = Step_stateEndTop" shows "step_post s (call_step s c)"
  using assms by (auto simp: call_step_def stateEndTop_def post_defs)

lemma post_se:
  assumes "scan_inv s" "step s = Step_se" shows "step_post s (call_step s c)"
proof -
  from assms obtain qs f where qs: "parseState s = qs @ [f]" "container f"
    using nonempty_snoc [of "parseState s"] by (auto simp: scan_inv_def)
  then consider "f = parseDictionaryKey" | "f = parseDictionaryValue" | "f = parseListValue"
    by (auto simp: container_def)
  then show ?thesis
  proof cases
    case 1
    then show ?thesis using assms qs
      by (auto simp: call_step_def se_def sv_def post_defs)
  next
    case 2
    then show ?thesis using assms qs
      by (auto simp: call_step_def se_def sd_def post_defs)
  next
    case 3
    then show ?thesis using assms qs
      by (auto simp: call_step_def se_def sl_def sv_def post_defs)
  qed
qed

lemma post_step: "scan_inv s \<Longrightarrow> step_post s (call_step s c)"
  by (cases "step s")
     (auto intro: post_sv post_sd post_sl post_si post_sin post_si0 post_sil post_ssl0 post_ssl
        post_ssf post_ss post_se post_stateError post_stateEndTop simp: scan_inv_def)

lemma scan_inv_reset: "string s0 = 0 \<Longrightarrow> scan_inv (reset s0)"
  by (simp add: scan_inv_def reset_def)

lemma frame_step_bytes [simp]: "frame_step (s\<lparr> bytes := b \<rparr>) op s' = frame_step s op s'"
  by (simp add: frame_step_def closes_def top_is_def cong: option.case_cong if_cong)

lemma call_step_inv:
  assumes "scan_inv s"
  obtains op s' where "call_step (s\<lparr> bytes := b \<rparr>) c = Returns (op, s')" "scan_inv s'"
    "step s' \<noteq> Step_sv" "frame_step s op s'" "(op = scanError) = (err s' \<noteq> None)"
proof -
  have p: "step_post (s\<lparr> bytes := b \<rparr>) (call_step (s\<lparr> bytes := b \<rparr>) c)"
    using assms by (intro post_step) simp
  then obtain op s' where r: "call_step (s\<lparr> bytes := b \<rparr>) c = Returns (op, s')"
    by (cases "call_step (s\<lparr> bytes := b \<rparr>) c") (auto simp: step_post_def)
  with p have "scan_inv s'" "step s' \<noteq> Step_sv" "frame_step s op s'"
    "(op = scanError) = (err s' \<noteq> None)"
    by (simp_all add: step_post_def)
  with r show ?thesis by (rule that)
qed

lemma feed_inv:
  "scan_inv s \<Longrightarrow> \<exists>s'. feed s bs = Returns s' \<and> scan_inv s' \<and> (bs \<noteq> [] \<longrightarrow> step s' \<noteq> Step_sv)"
proof (induction bs arbitrary: s)
  case Nil
  then show ?case by simp
next
  case (Cons c cs)
  from Cons.prems obtain op s1 where s1: "call_step (s\<lparr> bytes := bytes s + 1 \<rparr>) c = Returns (op, s1)"
    "scan_inv s1" "step s1 \<noteq> Step_sv"
    by (rule call_step_inv)
  from Cons.IH [OF s1(2)] obtain s' where s': "feed s1 cs = Returns s'" "scan_inv s'"
    "cs \<noteq> [] \<longrightarrow> step s' \<noteq> Step_sv" by blast
  have "step s' \<noteq> Step_sv" using s' s1(3) by (cases cs) auto
  then show ?case using s1 s' by (simp add: obind_def)
qed

lemma scan_inv_endTop:
  "scan_inv s \<Longrightarrow> endTop s = (err s = None \<and> parseState s = [] \<and> step s \<noteq> Step_sv)"
  by (cases "step s") (auto simp: scan_inv_def top_is_def)

lemma scan_inv_endTop_step: "scan_inv s \<Longrightarrow> endTop s \<Longrightarrow> step s = Step_stateEndTop"
  by (cases "step s") (auto simp: scan_inv_def top_is_def)

lemma scan_inv_below: "scan_inv s \<Longrightarrow> err s = None \<Longrightarrow> list_all container (butlast (parseState s))"
  by (auto simp: scan_inv_def split: if_splits)

lemma feed_reset:
  assumes "string s0 = 0"
  obtains s where "feed (reset s0) bs = Returns s" "scan_inv s" "(step s = Step_sv) = (bs = [])"
proof -
  from feed_inv [OF scan_inv_reset [OF assms], of bs] obtain s where
    s: "feed (reset s0) bs = Returns s" "scan_inv s" "bs \<noteq> [] \<longrightarrow> step s \<noteq> Step_sv" by blast
  have "step s = Step_sv" if "bs = []"
  proof -
    from that s(1) have "s = reset s0" by simp
    then show ?thesis by (simp add: reset_def)
  qed
  with s have "(step s = Step_sv) = (bs = [])" by blast
  with s(1,2) show ?thesis by (rule that)
qed

text \<open>
  Claim C9.  Feed any bytes to a scanner that was reset (with no string body pending, as
  for a fresh scanner).  The scanner never panics, and whatever byte comes next:
  a frame is pushed exactly when the byte opens a dictionary, list, integer or string
  length (the opcode is one of the four begin opcodes), and it is the frame of that
  construct; a frame is popped exactly when the byte closes the construct on top (the
  closing \<open>e\<close>, the \<open>:\<close> of an empty string, the last body byte), and it is that
  construct's frame; every other byte leaves the depth and the frames below the top as
  they are (\<open>frame_step\<close>).  As long as no syntax error is latched, the frames below the
  top are open dictionaries and lists, and the stack is empty exactly before the first
  byte and after the top-level value is complete.
\<close>

theorem C9_frame_stack_invariant:
  assumes "string s0 = 0"
  shows "\<exists>s. feed (reset s0) bs = Returns s \<and>
           (err s = None \<longrightarrow>
              (parseState s = []) = (bs = [] \<or> endTop s) \<and>
              list_all container (butlast (parseState s))) \<and>
           (\<exists>op s'. call_step (s\<lparr> bytes := bytes s + 1 \<rparr>) c = Returns (op, s') \<and>
              frame_step s op s')"
proof -
  from assms obtain s where s: "feed (reset s0) bs = Returns s" "scan_inv s"
    "(step s = Step_sv) = (bs = [])" by (rule feed_reset)
  obtain op s' where st: "call_step (s\<lparr> bytes := bytes s + 1 \<rparr>) c = Returns (op, s')"
    "frame_step s op s'"
    using s(2) by (rule call_step_inv)
  have e: "(parseState s = []) = (bs = [] \<or> endTop s)" if "err s = None"
    using that s(2,3) scan_inv_endTop [OF s(2)] by (cases "step s") (auto simp: scan_inv_def)
  have b: "list_all container (butlast (parseState s))" if "err s = None"
    using that s(2) by (rule scan_inv_below [rotated])
  show ?thesis
  proof (intro exI conjI impI)
    show "feed (reset s0) bs = Returns s" by (rule s(1))
    show "call_step (s\<lparr> bytes := bytes s + 1 \<rparr>) c = Returns (op, s')" by (rule st(1))
    show "frame_step s op s'" by (rule st(2))
  qed (simp_all add: e b)
qed

theorem C9_frame_stack_invariant_witness:
  "string scanner0 = 0 \<and>
   (\<exists>s. feed (reset scanner0) ''d3:fo'' = Returns s \<and>
      (err s = None \<longrightarrow>
         (parseState s = []) = (''d3:fo'' = [] \<or> endTop s) \<and>
         list_all container (butlast (parseState s))) \<and>
      (\<exists>op s'. call_step (s\<lparr> bytes := bytes s + 1 \<rparr>) CHR ''o'' = Returns (op, s') \<and>
         frame_step s op s'))"
  using C9_frame_stack_invariant [of scanner0 "''d3:fo''" "CHR ''o''"]
  by (simp add: scanner0_def)

text \<open>
  Claim C7, as stated, fails: after \<open>reset\<close> and no byte at all the frame stack is empty
  and no error is set, yet \<open>eof\<close> answers \<open>scanError\<close> (it tests \<open>endTop\<close>, not the
  stack), so the empty input is invalid; and when an error is already latched (input
  \<open>x\<close>), \<open>eof\<close> answers \<open>scanError\<close> and keeps that earlier error instead of setting
  "unexpected end of input".
\<close>

theorem C7_eof_counterexample:
  "parseState (reset scanner0) = [] \<and> err (reset scanner0) = None \<and>
   fst (eof (reset scanner0)) = scanError \<and>
   Valid [] = Returns False \<and>
   (\<exists>s. feed (reset scanner0) ''x'' = Returns s \<and> eof s = (scanError, s) \<and>
      err s = Some (SyntaxError (InvalidCharacter CHR ''x'' ''looking for value'') 1))"
  by (simp add: scan_defs)

text \<open>
  Claim C7, amended.  After any bytes fed from the reset state, \<open>eof\<close> answers as
  follows: with an error already latched, \<open>scanError\<close>, the error kept as it is;
  otherwise \<open>scanEnd\<close> when the stack is empty and at least one byte was consumed (a
  top-level value is complete); otherwise it sets "unexpected end of input" at the
  current byte count and answers \<open>scanError\<close>.  In particular a scan that leaves a
  non-empty stack is rejected.
\<close>

theorem C7_eof_amended:
  assumes "string s0 = 0"
  shows "\<exists>s. feed (reset s0) bs = Returns s \<and>
           eof s =
             (if err s \<noteq> None then (scanError, s)
              else if parseState s = [] \<and> bs \<noteq> [] then (scanEnd, s)
              else (scanError, s\<lparr> err := Some (SyntaxError UnexpectedEnd (bytes s)) \<rparr>))"
proof -
  from assms obtain s where s: "feed (reset s0) bs = Returns s" "scan_inv s"
    "(step s = Step_sv) = (bs = [])" by (rule feed_reset)
  have "eof s =
             (if err s \<noteq> None then (scanError, s)
              else if parseState s = [] \<and> bs \<noteq> [] then (scanEnd, s)
              else (scanError, s\<lparr> err := Some (SyntaxError UnexpectedEnd (bytes s)) \<rparr>))"
    using s(3) scan_inv_endTop [OF s(2)] by (auto simp: eof_def)
  with s show ?thesis by blast
qed

theorem C7_eof_amended_witness:
  "string scanner0 = 0 \<and>
   (\<exists>s. feed (reset scanner0) ''d'' = Returns s \<and> parseState s = [parseDictionaryKey] \<and>
      eof s =
        (if err s \<noteq> None then (scanError, s)
         else if parseState s = [] \<and> ''d'' \<noteq> [] then (scanEnd, s)
         else (scanError, s\<lparr> err := Some (SyntaxError UnexpectedEnd (bytes s)) \<rparr>)))"
  using C7_eof_amended [of scanner0 "''d''"]
  by (simp add: scan_defs)

lemma checkValidLoop_endTop:
  "scan_inv s \<Longrightarrow> step s = Step_stateEndTop \<Longrightarrow> \<exists>s'. checkValidLoop w s = Returns (None, s')"
proof (induction w arbitrary: s)
  case Nil
  then show ?case by (auto simp: eof_def scan_inv_def)
next
  case (Cons c w)
  have "scan_inv (s\<lparr> bytes := bytes s + 1 \<rparr>)" "step (s\<lparr> bytes := bytes s + 1 \<rparr>) = Step_stateEndTop"
    using Cons.prems by simp_all
  from Cons.IH [OF this] show ?case using Cons.prems
    by (simp add: call_step_def stateEndTop_def obind_def)
qed

lemma checkValidLoop_append:
  "scan_inv s \<Longrightarrow> checkValidLoop v s = Returns (None, s1) \<Longrightarrow>
     \<exists>s2. checkValidLoop (v @ w) s = Returns (None, s2)"
proof (induction v arbitrary: s)
  case Nil
  then have "endTop s" by (auto simp: eof_def split: if_splits)
  then show ?case using Nil.prems(1) checkValidLoop_endTop scan_inv_endTop_step by auto
next
  case (Cons c v)
  from Cons.prems(1) obtain op s' where s': "call_step (s\<lparr> bytes := bytes s + 1 \<rparr>) c = Returns (op, s')"
    "scan_inv s'" "(op = scanError) = (err s' \<noteq> None)"
    by (rule call_step_inv)
  with Cons.prems(2) have "op \<noteq> scanError" "checkValidLoop v s' = Returns (None, s1)"
    by (auto simp: obind_def split: if_splits)
  with Cons.IH [OF s'(2)] s'(1) show ?case by (simp add: obind_def)
qed

text \<open>
  Claim C10.  If the validator accepts \<open>v\<close>, it accepts \<open>v\<close> followed by any bytes.
\<close>

theorem C10_trailing_bytes_accepted:
  assumes "Valid v = Returns True"
  shows "Valid (v @ w) = Returns True"
proof -
  have inv: "scan_inv (reset scanner0)" by (rule scan_inv_reset) (simp add: scanner0_def)
  from assms obtain s1 where "checkValidLoop v (reset scanner0) = Returns (None, s1)"
    by (auto simp: Valid_def checkValid_def obind_def split: outcome.splits)
  from checkValidLoop_append [OF inv this, of w] obtain s2 where
    "checkValidLoop (v @ w) (reset scanner0) = Returns (None, s2)" by blast
  then show ?thesis
    by (simp add: Valid_def checkValid_def obind_def)
qed

theorem C10_trailing_bytes_accepted_witness:
  "Valid ''i0e'' = Returns True \<and> Valid (''i0e'' @ ''xyz'') = Returns True"
  using C10_trailing_bytes_accepted [of "''i0e''" "''xyz''"] valid_i0e
  by simp

section \<open>The binder and the streaming decoder (C2, C6, C8)\<close>

lemma obind_cong_weak [cong]: "x = y \<Longrightarrow> obind x f = obind y f"
  by simp

lemma obind_simps [simp]:
  "obind (Returns a) f = f a" "obind Panics f = Panics" "obind OutOfFuel f = OutOfFuel"
  by (simp_all add: obind_def)

lemmas scan_step_defs = call_step_def sv_def sd_def ssl0_def ssl_def ssle_def
  ssf_def ss_def se_def sl_def si_def sin_def si0_def sil_def stateError_def stateEndTop_def eof_def
  pushParseState_def popParseState_def scan_error_def between_def ParseUint_def digitVal_def Let_def

lemmas bind_defs = Unmarshal_def unmarshal_def checkValid_def decodeState0_def scanner0_def reset_def
  init_def scanNext_def scanWhile_def skip_def readIndex_def sliceBytes_def saveError_def addErrorContext_def
  integerStore_def stringStore_def list'_def dictionary_def growSlice_def listFinish_def
  OverflowInt_def OverflowUint_def isSignedKind_def isUnsignedCase_def Bits_def ParseInt_def
  base64_Decode_def base64_DecodedLen_def b64val_def

text \<open>
  Claim C2 fails on the code.  \<open>stringStore\<close> passes the body of a string that goes
  into a \<open>[]byte\<close> through \<open>base64.StdEncoding.Decode\<close>: the four bytes \<open>abcd\<close> are
  stored as the three bytes 105, 183, 29.  And \<open>value\<close> takes the start of the body of
  an empty string at the \<open>:\<close>, so that \<open>0:\<close> stores the text \<open>:\<close>.
\<close>

theorem C2_string_into_bytes_is_base64_decoded: "Unmarshal tf (Suc 0) ''4:abcd'' (Iface (TPtr (TSlice (TUnsigned KUint8))) (VPtr (Some (VSlice [] 0))))
   = Returns (None, Iface (TPtr (TSlice (TUnsigned KUint8))) (VPtr (Some (VSlice [VUint 105, VUint 183, VUint 29] 3))))"
  by (simp add: bind_defs scan_step_defs)

lemma empty_string_decodes_as_colon: "Unmarshal tf (Suc 0) ''0:'' (Iface (TPtr TString) (VPtr (Some (VString ''old''))))
   = Returns (None, Iface (TPtr TString) (VPtr (Some (VString '':''))))"
  by (simp add: bind_defs scan_step_defs)

text \<open>
  Claim C6, as stated, fails: \<open>Unmarshal\<close> runs \<open>checkValid\<close> over the whole input
  before it looks at the destination, so an invalid input with a nil destination is
  scanned and answered with the syntax error.
\<close>

theorem C6_unmarshal_scans_first_counterexample: "Unmarshal (\<lambda>t. []) (Suc 0) ''x'' NilIface
   = Returns (Some (SyntaxError (InvalidCharacter CHR ''x'' ''looking for value'') 1), NilIface)"
  by (simp add: bind_defs scan_step_defs)



lemma checkValidLoop_returns:
  "scan_inv s \<Longrightarrow> \<exists>er s'. checkValidLoop bs s = Returns (er, s')"
proof (induction bs arbitrary: s)
  case Nil
  then show ?case by (simp split: prod.splits)
next
  case (Cons c cs)
  from Cons.prems obtain op s1 where s1: "call_step (s\<lparr> bytes := bytes s + 1 \<rparr>) c = Returns (op, s1)"
    "scan_inv s1" by (rule call_step_inv)
  from Cons.IH [OF s1(2)] show ?case using s1(1) by simp
qed

lemma checkValid_returns: "string s0 = 0 \<Longrightarrow> \<exists>er s'. checkValid bs s0 = Returns (er, s')"
  unfolding checkValid_def by (rule checkValidLoop_returns) (rule scan_inv_reset)

lemma unmarshal_invalid:
  "invalidDestination v \<Longrightarrow>
     unmarshal tf fuel d v = Returns (Some (InvalidUnmarshalError (TypeOf v)), d, v)"
  by (cases v) (auto simp: unmarshal_def)

text \<open>
  Claim C6, amended.  For a destination that is nil, not a pointer, or a nil pointer,
  \<open>Unmarshal\<close> first validates the whole input (this never panics); it returns the
  syntax error if there is one, and the invalid-destination error otherwise, in both
  cases without running the binder: the destination is returned as it was, whatever the
  fuel.  \<open>unmarshal\<close> itself answers with the invalid-destination error at once and leaves
  the decode state, and so the cursor and the scanner, untouched.
\<close>

theorem C6_unmarshal_invalid_destination_amended:
  assumes "invalidDestination v"
  shows "\<exists>er s. checkValid bs scanner0 = Returns (er, s) \<and>
           Unmarshal tf fuel bs v =
             Returns (if er = None then Some (InvalidUnmarshalError (TypeOf v)) else er, v) \<and>
           unmarshal tf fuel d v = Returns (Some (InvalidUnmarshalError (TypeOf v)), d, v)"
proof -
  have "string scanner0 = 0" by (simp add: scanner0_def)
  from checkValid_returns [OF this, of bs] obtain er s where c: "checkValid bs scanner0 = Returns (er, s)"
    by blast
  have "Unmarshal tf fuel bs v =
             Returns (if er = None then Some (InvalidUnmarshalError (TypeOf v)) else er, v)"
    using c unmarshal_invalid [OF assms] by (auto simp: Unmarshal_def decodeState0_def)
  with c unmarshal_invalid [OF assms] show ?thesis by blast
qed

theorem C6_unmarshal_invalid_destination_amended_witness:
  "invalidDestination (Iface (TSigned KInt) (VInt 0)) \<and>
   (\<exists>er s. checkValid ''i1e'' scanner0 = Returns (er, s) \<and> er = None \<and>
      Unmarshal (\<lambda>t. []) (Suc 0) ''i1e'' (Iface (TSigned KInt) (VInt 0)) =
        Returns (if er = None then Some (InvalidUnmarshalError (TypeOf (Iface (TSigned KInt) (VInt 0)))) else er,
                 Iface (TSigned KInt) (VInt 0)) \<and>
      unmarshal (\<lambda>t. []) (Suc 0) decodeState0 (Iface (TSigned KInt) (VInt 0)) =
        Returns (Some (InvalidUnmarshalError (TypeOf (Iface (TSigned KInt) (VInt 0)))), decodeState0,
                 Iface (TSigned KInt) (VInt 0)))"
  using C6_unmarshal_invalid_destination_amended [of "Iface (TSigned KInt) (VInt 0)" "''i1e''" "\<lambda>t. []" "Suc 0" decodeState0]
  by (simp add: bind_defs scan_step_defs)





end
